theory Spec2Isabelle
  imports Complex_Main
begin

section \<open>Data model of the GNSS estimation orchestrator (laikad.py)\<close>

text \<open>
  The orchestrator is the Python class \<open>Laikad\<close> with the module functions around it.
  Python floats are modelled as \<open>real\<close> (rounding is not modelled); a float that may be
  NaN or infinite (the Kalman filter's state, covariance and the solver's output) is an
  \<open>npfloat\<close>, and the filter time, which is NaN until the filter is first updated, is a
  \<open>real option\<close> with \<open>None\<close> for NaN. Logging calls (\<open>cloudlog\<close>) have no effect
  on any value of the program and are left out. Exceptions are values of type \<open>error\<close>.
\<close>

definition MAX_TIME_GAP :: real where
  "MAX_TIME_GAP = 10"

definition CACHE_VERSION :: real where
  "CACHE_VERSION = 1 / 10"

text \<open>\<open>laika.constants\<close>: seconds in a minute and in a week.\<close>

definition SECS_IN_MIN :: real where
  "SECS_IN_MIN = 60"

definition SECS_IN_WEEK :: real where
  "SECS_IN_WEEK = 604800"

datatype error =
    JSONDecodeError | TypeError | KeyError | AttributeError | ValueError
  | AssertionError | RuntimeError | IOError | Exception string
  | Subclass error string | OtherError

text \<open>
  An exception is named by its class. \<open>Subclass c n\<close> is an exception of a class
  \<open>n\<close> derived from the class of \<open>c\<close>, and \<open>OtherError\<close> one of a class derived
  from none of those named. \<open>isinstance e c\<close> is what an \<open>except\<close> clause for the
  class of \<open>c\<close> tests: the exception is of that class or of a class derived from it
  (\<open>json.decoder.JSONDecodeError\<close> derives from \<open>ValueError\<close>).
\<close>

fun isinstance :: "error \<Rightarrow> error \<Rightarrow> bool" where
  "isinstance (Subclass p n) c = (Subclass p n = c \<or> isinstance p c)"
| "isinstance JSONDecodeError c = (c = JSONDecodeError \<or> c = ValueError)"
| "isinstance e c = (e = c)"

datatype npfloat = Finite real | PosInf | NegInf | NaN

fun isfinite :: "npfloat \<Rightarrow> bool" where
  "isfinite (Finite r) = True"
| "isfinite PosInf = False"
| "isfinite NegInf = False"
| "isfinite NaN = False"

text \<open>\<open>np.sqrt(abs(v))\<close> on one entry.\<close>

fun np_sqrt_abs :: "npfloat \<Rightarrow> npfloat" where
  "np_sqrt_abs (Finite r) = Finite (sqrt \<bar>r\<bar>)"
| "np_sqrt_abs PosInf = PosInf"
| "np_sqrt_abs NegInf = PosInf"
| "np_sqrt_abs NaN = NaN"

datatype constellation_id = GPS | SBAS | GALILEO | BEIDOU | IMES | QZNSS | GLONASS

datatype ephemeris_type = NAV | FINAL_ORBIT | RAPID_ORBIT | ULTRA_RAPID_ORBIT | QCOM_POLY

datatype observation_kind =
  PSEUDORANGE_GPS | PSEUDORANGE_RATE_GPS | PSEUDORANGE_GLONASS | PSEUDORANGE_RATE_GLONASS

text \<open>\<open>class EphemerisSourceType(IntEnum)\<close>.\<close>

datatype ephemeris_source_type = Nav | NasaUltraRapid | GlonassIacUltraRapid

subsection \<open>Satellite time\<close>

text \<open>
  Modelled from the spec: \<open>GPSTime\<close> (laika.gps_time) is a week number with the seconds
  of the week; it is totally ordered, two times subtract to a duration in seconds, and a
  duration is added to a time.
\<close>

record gps_time =
  week :: int
  tow :: real

definition gps_sub :: "gps_time \<Rightarrow> gps_time \<Rightarrow> real" where
  "gps_sub a b = real_of_int (week a - week b) * SECS_IN_WEEK + tow a - tow b"

definition gps_add :: "gps_time \<Rightarrow> real \<Rightarrow> gps_time" where
  "gps_add a d =
     (let k = \<lfloor>(tow a + d) / SECS_IN_WEEK\<rfloor>
      in \<lparr>week = week a + k, tow = tow a + d - real_of_int k * SECS_IN_WEEK\<rparr>)"

definition gps_le :: "gps_time \<Rightarrow> gps_time \<Rightarrow> bool" where
  "gps_le a b = (gps_sub a b \<le> 0)"

text \<open>
  Modelled from the spec: the fetched-time records (\<open>TimeRangeHolder\<close> of laika) are time
  ranges, and \<open>t in orbit_fetched_times\<close> holds when a range covers \<open>t\<close>.
\<close>

type_synonym time_range_holder = "(gps_time \<times> gps_time) list"

definition contains :: "time_range_holder \<Rightarrow> gps_time \<Rightarrow> bool" where
  "contains rs t = list_ex (\<lambda>(a, b). gps_le a t \<and> gps_le t b) rs"

subsection \<open>Ephemerides, measurements, the orbit store\<close>

record ephemeris =
  prn :: string
  eph_type :: ephemeris_type
  epoch :: gps_time
  file_epoch :: "gps_time option"
  file_source :: string

type_synonym ephems = "(string \<times> ephemeris list) list"

text \<open>
  \<open>GNSSMeasurement\<close>: the fields this module reads. The observables are Python dicts
  from the signal name to a float, kept as association lists.
\<close>

record gnss_measurement =
  constellation_id :: constellation_id
  sv_id :: int
  glonass_freq :: int
  observables_final :: "(string \<times> real) list"
  observables_std :: "(string \<times> real) list"
  sat_pos_final :: "real list"
  sat_vel :: "real list"
  sat_ephemeris :: "ephemeris option"

record astro_dog =
  orbits :: ephems
  nav :: ephems
  orbit_fetched_times :: time_range_holder
  valid_const :: "string list"
  auto_update :: bool
  valid_ephem_types :: "ephemeris_type list"

subsection \<open>The Kalman filter object\<close>

text \<open>
  \<open>GNSSKalman\<close>: the filter time (\<open>filter.get_filter_time()\<close>), the state vector \<open>x\<close>
  and the covariance matrix \<open>P\<close> (a list of rows).
\<close>

record gnss_kalman =
  kf_filter_time :: "real option"
  kf_x :: "npfloat list"
  kf_P :: "npfloat list list"

subsection \<open>Messages\<close>

record report =
  gpsWeek :: int
  rcvTow :: real
  raw_observations :: "gnss_measurement list"

datatype ublox_msg = MeasurementReport report | EphemerisMsg string | OtherMsg string

text \<open>\<open>log.GnssMeasurements.CorrectedMeasurement\<close>.\<close>

record corrected_measurement =
  constellationId :: constellation_id
  svId :: int
  glonassFrequency :: int
  pseudorange :: real
  pseudorangeStd :: real
  pseudorangeRate :: real
  pseudorangeRateStd :: real
  satPos :: "real list"
  satVel :: "real list"
  ephemerisSource_type :: ephemeris_source_type
  ephemerisSource_gpsWeek :: int
  ephemerisSource_gpsTimeOfWeek :: int

text \<open>\<open>log.LiveLocationKalman.Measurement\<close>: value, std, valid.\<close>

record measurement_msg =
  m_value :: "npfloat list"
  m_std :: "npfloat list"
  m_valid :: bool

record gnss_measurements_msg =
  msg_gpsWeek :: int
  msg_gpsTimeOfWeek :: real
  positionECEF :: measurement_msg
  velocityECEF :: measurement_msg
  positionFixECEF :: measurement_msg
  ubloxMonoTime :: int
  correctedMeasurements :: "corrected_measurement list"

subsection \<open>The persisted cache\<close>

text \<open>
  The dict that \<open>cache_ephemeris\<close> serialises. The byte encoding of \<open>json.dumps\<close> with
  \<open>CacheSerializer\<close> is not modelled: a write is recorded with the snapshot it encodes.
\<close>

record cache_snapshot =
  snap_version :: real
  snap_last_fetch_orbits_t :: "gps_time option"
  snap_orbits :: ephems
  snap_nav :: ephems

text \<open>
  What \<open>json.loads(cache, object_hook=deserialize_hook)\<close> returns when it does not raise:
  a dict from keys to values, or a value that is not a dict. A value of the dict is an
  ephemeris table, a \<open>GPSTime\<close> (built by the hook from a dict with a \<open>week\<close> key),
  \<open>null\<close>, or any other value (a number, a string, a boolean, a list).
\<close>

datatype json_field = JEphems ephems | JTime gps_time | JNull | JOther

datatype json_value = NotADict | Dict "(string \<times> json_field) list"

subsection \<open>Effects and the estimator's state\<close>

text \<open>
  Calls that leave the module are recorded, in order, in the \<open>trace\<close> field added to the
  estimator's state: a write of the persisted cache (\<open>put_nonblocking\<close>), the submission
  of a background fetch to the process pool, a call of the position solver with its
  \<open>min_measurements\<close>, and the calls of the Kalman filter.
\<close>

datatype effect =
    PutNonblocking cache_snapshot
  | Submit gps_time
  | CalcPosFix "gnss_measurement list" nat
  | InitState "npfloat list" "npfloat list"
  | Predict real
  | PredictAndObserve real observation_kind "real list list"

text \<open>
  The future of the background task: still running, or done with what \<open>result()\<close> gives
  (the value \<open>get_orbit_data\<close> returned, where \<open>None\<close> is Python's \<open>None\<close>, or the
  exception it re-raises).
\<close>

datatype future = Running | Done "error + (ephems \<times> time_range_holder) option"

record laikad =
  astro_dog :: astro_dog
  gnss_kf :: gnss_kalman
  auto_fetch_orbits :: bool
  orbit_fetch_executor :: "unit option"
  orbit_fetch_future :: "future option"
  last_fetch_orbits_t :: "gps_time option"
  last_cached_t :: "gps_time option"
  save_ephemeris :: bool
  last_pos_fix :: "npfloat list"
  last_pos_residual :: "npfloat list"
  last_pos_fix_t :: "real option"
  trace :: "effect list"

subsection \<open>External collaborators\<close>

text \<open>
  Functions and constants this module imports: the solver
  (\<open>calc_pos_fix_gauss_newton\<close>), laika's measurement pipeline and orbit store, the
  filter's operations and its class constants (\<open>GNSSKalman.x_initial\<close>,
  \<open>GNSSKalman.P_initial\<close>, the slices \<open>States.ECEF_POS\<close> and
  \<open>States.ECEF_VELOCITY\<close> as start and stop), and the JSON parser. They are parameters
  of the model.
\<close>

type_synonym slice = "nat \<times> nat"

record env =
  calc_pos_fix_gauss_newton :: "gnss_measurement list \<Rightarrow> nat \<Rightarrow> npfloat list \<times> npfloat list"
  read_raw_ublox :: "report \<Rightarrow> gnss_measurement list"
  process_measurements :: "gnss_measurement list \<Rightarrow> astro_dog \<Rightarrow> gnss_measurement list"
  correct_measurements ::
    "gnss_measurement list \<Rightarrow> npfloat list \<Rightarrow> astro_dog \<Rightarrow> gnss_measurement list"
  convert_ublox_ephem :: "string \<Rightarrow> ephemeris"
  add_orbits :: "astro_dog \<Rightarrow> ephems \<Rightarrow> astro_dog"
  add_navs :: "astro_dog \<Rightarrow> ephems \<Rightarrow> astro_dog"
  astro_get_orbit_data ::
    "gps_time \<Rightarrow> string list \<Rightarrow> bool \<Rightarrow> ephemeris_type list
       \<Rightarrow> error + (ephems \<times> time_range_holder)"
  as_array :: "gnss_measurement \<Rightarrow> real list"
  kf_new :: gnss_kalman
  kf_init_state :: "gnss_kalman \<Rightarrow> npfloat list \<Rightarrow> npfloat list \<Rightarrow> gnss_kalman"
  kf_predict :: "gnss_kalman \<Rightarrow> real \<Rightarrow> gnss_kalman"
  kf_predict_and_observe ::
    "gnss_kalman \<Rightarrow> real \<Rightarrow> observation_kind \<Rightarrow> real list list \<Rightarrow> gnss_kalman"
  x_initial :: "npfloat list"
  P_initial :: "npfloat list list"
  ECEF_POS :: slice
  ECEF_VELOCITY :: slice
  json_loads :: "string \<Rightarrow> error + json_value"


section \<open>Operations\<close>

subsection \<open>numpy and dict helpers\<close>

text \<open>\<open>a[lo:hi]\<close>.\<close>

definition np_slice :: "slice \<Rightarrow> 'a list \<Rightarrow> 'a list" where
  "np_slice sl xs = take (snd sl - fst sl) (drop (fst sl) xs)"

text \<open>
  \<open>a[lo:hi] = vs\<close> on a numpy array: the values must have the length of the slice, or
  length one (then they are broadcast); any other length raises \<open>ValueError\<close>.
\<close>

definition np_set_slice :: "slice \<Rightarrow> 'a list \<Rightarrow> 'a list \<Rightarrow> error + 'a list" where
  "np_set_slice sl xs vs =
     (let hi = min (snd sl) (length xs); lo = min (fst sl) hi; n = hi - lo
      in if length vs = n then Inr (take lo xs @ vs @ drop hi xs)
         else if length vs = 1 then Inr (take lo xs @ replicate n (hd vs) @ drop hi xs)
         else Inl ValueError)"

text \<open>\<open>a[lo:hi] = v\<close> with a scalar.\<close>

definition np_fill_slice :: "slice \<Rightarrow> 'a list \<Rightarrow> 'a \<Rightarrow> 'a list" where
  "np_fill_slice sl xs v =
     (let hi = min (snd sl) (length xs); lo = min (fst sl) hi
      in take lo xs @ replicate (hi - lo) v @ drop hi xs)"

text \<open>\<open>np.diagonal\<close> of a matrix given as its rows.\<close>

definition diagonal :: "'a list list \<Rightarrow> 'a list" where
  "diagonal rows =
     map (\<lambda>i. rows ! i ! i) [0..<min (length rows) (case rows of [] \<Rightarrow> 0 | r # _ \<Rightarrow> length r)]"

text \<open>\<open>d[k]\<close> on a dict: \<open>KeyError\<close> when the key is missing.\<close>

definition dict_get :: "('k \<times> 'v) list \<Rightarrow> 'k \<Rightarrow> error + 'v" where
  "dict_get d k = (case map_of d k of None \<Rightarrow> Inl KeyError | Some v \<Rightarrow> Inr v)"

text \<open>
  \<open>defaultdict(list)\<close>, with its insertion order: \<open>d[k].append(v)\<close>, reading \<open>d[k]\<close>
  (which inserts an empty list for a missing key), and \<open>d[k] = v\<close>.
\<close>

fun dd_append :: "('k \<times> 'v list) list \<Rightarrow> 'k \<Rightarrow> 'v \<Rightarrow> ('k \<times> 'v list) list" where
  "dd_append [] k v = [(k, [v])]"
| "dd_append ((k', vs) # d) k v =
     (if k' = k then (k', vs @ [v]) # d else (k', vs) # dd_append d k v)"

fun dd_set :: "('k \<times> 'v) list \<Rightarrow> 'k \<Rightarrow> 'v \<Rightarrow> ('k \<times> 'v) list" where
  "dd_set [] k v = [(k, v)]"
| "dd_set ((k', v') # d) k v = (if k' = k then (k', v) # d else (k', v') # dd_set d k v)"

definition dd_get :: "('k \<times> 'v list) list \<Rightarrow> 'k \<Rightarrow> 'v list \<times> ('k \<times> 'v list) list" where
  "dd_get d k = (case map_of d k of None \<Rightarrow> ([], d @ [(k, [])]) | Some vs \<Rightarrow> (vs, d))"

text \<open>A list comprehension over a function that may raise stops at the first exception.\<close>

fun map_err :: "('a \<Rightarrow> error + 'b) \<Rightarrow> 'a list \<Rightarrow> error + 'b list" where
  "map_err f [] = Inr []"
| "map_err f (a # as) =
     (case f a of
        Inl e \<Rightarrow> Inl e
      | Inr b \<Rightarrow> (case map_err f as of Inl e \<Rightarrow> Inl e | Inr bs \<Rightarrow> Inr (b # bs)))"

text \<open>\<open>int(v)\<close> of a float truncates towards zero.\<close>

definition py_int :: "real \<Rightarrow> int" where
  "py_int r = (if 0 \<le> r then \<lfloor>r\<rfloor> else \<lceil>r\<rceil>)"

subsection \<open>Ephemeris cache\<close>

text \<open>\<open>Laikad.cache_ephemeris\<close>.\<close>

definition cache_ephemeris :: "laikad \<Rightarrow> gps_time \<Rightarrow> laikad" where
  "cache_ephemeris s t =
     (if save_ephemeris s \<and>
         (case last_cached_t s of None \<Rightarrow> True | Some l \<Rightarrow> gps_sub t l > SECS_IN_MIN)
      then s\<lparr>trace := trace s @
                 [PutNonblocking \<lparr>snap_version = CACHE_VERSION,
                    snap_last_fetch_orbits_t = last_fetch_orbits_t s,
                    snap_orbits = orbits (astro_dog s), snap_nav = nav (astro_dog s)\<rparr>],
             last_cached_t := Some t\<rparr>
      else s)"

text \<open>
  \<open>Laikad.load_cache\<close>. \<open>cache\<close> is what \<open>Params().get(EPHEMERIS_CACHE)\<close> returns.
  The \<open>try\<close> block catches \<open>JSONDecodeError\<close> only. The debug message after it
  subscripts \<open>cache\<close> with \<open>'orbits'\<close> and \<open>'nav'\<close>: after a caught
  \<open>JSONDecodeError\<close> the name \<open>cache\<close> is still bound to the bytes read, and
  subscripting bytes with a string raises \<open>TypeError\<close>. Inside the \<open>try\<close>,
  subscripting a value that is not a dict raises \<open>TypeError\<close>, a missing key raises
  \<open>KeyError\<close>, and a table that is not a dict of ephemerides has no \<open>items\<close>
  (\<open>AttributeError\<close> in \<open>add_orbits\<close> and \<open>add_navs\<close>). A cached
  \<open>last_fetch_orbits_t\<close> that is neither a time nor \<open>null\<close> has no
  \<open>as_datetime\<close> when the debug message is built.
\<close>

definition as_ephems :: "json_field \<Rightarrow> error + ephems" where
  "as_ephems v = (case v of JEphems e \<Rightarrow> Inr e | _ \<Rightarrow> Inl AttributeError)"

definition load_cache :: "env \<Rightarrow> string option \<Rightarrow> laikad \<Rightarrow> error + laikad" where
  "load_cache env cache s =
     (if \<not> save_ephemeris s then Inr s
      else case cache of
        None \<Rightarrow> Inr s
      | Some bytes \<Rightarrow>
          if bytes = [] then Inr s
          else (case json_loads env bytes of
            Inl e \<Rightarrow> (if isinstance e JSONDecodeError then Inl TypeError else Inl e)
          | Inr NotADict \<Rightarrow> Inl TypeError
          | Inr (Dict d) \<Rightarrow>
              (case dict_get d ''orbits'' of
                 Inl e \<Rightarrow> Inl e
               | Inr o_field \<Rightarrow>
              (case as_ephems o_field of
                 Inl e \<Rightarrow> Inl e
               | Inr o_tab \<Rightarrow>
              (case dict_get d ''nav'' of
                 Inl e \<Rightarrow> Inl e
               | Inr n_field \<Rightarrow>
              (case as_ephems n_field of
                 Inl e \<Rightarrow> Inl e
               | Inr n_tab \<Rightarrow>
              (case dict_get d ''last_fetch_orbits_t'' of
                 Inl e \<Rightarrow> Inl e
               | Inr t_field \<Rightarrow>
                  (let dog = add_navs env (add_orbits env (astro_dog s) o_tab) n_tab
                   in case t_field of
                        JTime g \<Rightarrow> Inr (s\<lparr>astro_dog := dog, last_fetch_orbits_t := Some g\<rparr>)
                      | JNull \<Rightarrow> Inr (s\<lparr>astro_dog := dog, last_fetch_orbits_t := None\<rparr>)
                      | _ \<Rightarrow> Inl AttributeError))))))))"

text \<open>
  \<open>Laikad.__init__\<close>: the estimator as constructed, before the cache is loaded, and the
  constructor. \<open>AstroDog(...)\<close> starts with empty tables and no fetched times.
\<close>

definition cold_start :: "env \<Rightarrow> string list \<Rightarrow> bool \<Rightarrow> bool \<Rightarrow> ephemeris_type list \<Rightarrow> bool \<Rightarrow> laikad" where
  "cold_start env vc auto_fetch auto_upd types save =
     \<lparr>astro_dog = \<lparr>orbits = [], nav = [], orbit_fetched_times = [], valid_const = vc,
                     auto_update = auto_upd, valid_ephem_types = types\<rparr>,
      gnss_kf = kf_new env,
      auto_fetch_orbits = auto_fetch,
      orbit_fetch_executor = None,
      orbit_fetch_future = None,
      last_fetch_orbits_t = None,
      last_cached_t = None,
      save_ephemeris = save,
      last_pos_fix = [],
      last_pos_residual = [],
      last_pos_fix_t = None,
      trace = []\<rparr>"

definition laikad_init ::
  "env \<Rightarrow> string option \<Rightarrow> string list \<Rightarrow> bool \<Rightarrow> bool \<Rightarrow> ephemeris_type list \<Rightarrow> bool
     \<Rightarrow> error + laikad" where
  "laikad_init env cache vc auto_fetch auto_upd types save =
     load_cache env cache (cold_start env vc auto_fetch auto_upd types save)"



subsection \<open>Position fix\<close>

text \<open>
  \<open>Laikad.get_est_pos\<close>: returns the position it returns in Python, with the updated
  estimator. \<open>pos_fix[:3]\<close> is \<open>take 3\<close>.
\<close>

definition get_est_pos :: "env \<Rightarrow> laikad \<Rightarrow> real \<Rightarrow> gnss_measurement list \<Rightarrow> npfloat list \<times> laikad" where
  "get_est_pos env s t processed_measurements =
     (if (case last_pos_fix_t s of None \<Rightarrow> True | Some l \<Rightarrow> \<bar>l - t\<bar> \<ge> 2) then
        (let min_measurements =
               (if list_ex (\<lambda>p. constellation_id p = GLONASS) processed_measurements
                then 5 else 4);
             (pos_fix, pos_fix_residual) =
               calc_pos_fix_gauss_newton env processed_measurements min_measurements;
             s1 = s\<lparr>trace := trace s @ [CalcPosFix processed_measurements min_measurements]\<rparr>;
             s2 = (if length pos_fix > 0
                   then s1\<lparr>last_pos_fix := take 3 pos_fix,
                           last_pos_residual := pos_fix_residual,
                           last_pos_fix_t := Some t\<rparr>
                   else s1)
         in (last_pos_fix s2, s2))
      else (last_pos_fix s, s))"

subsection \<open>Filter health and the measurement router\<close>

text \<open>\<open>Laikad.kf_valid\<close>; \<open>abs(t - nan) < 10\<close> is false.\<close>

definition kf_valid :: "env \<Rightarrow> laikad \<Rightarrow> real \<Rightarrow> bool list" where
  "kf_valid env s t =
     (let filter_time = kf_filter_time (gnss_kf s)
      in [filter_time \<noteq> None,
          (case filter_time of None \<Rightarrow> False | Some ft \<Rightarrow> \<bar>t - ft\<bar> < MAX_TIME_GAP),
          list_all isfinite (np_slice (ECEF_POS env) (kf_x (gnss_kf s)))])"

text \<open>Python's \<open>all\<close> on a list of booleans.\<close>

definition py_all :: "bool list \<Rightarrow> bool" where
  "py_all bs = list_all (\<lambda>b. b) bs"

text \<open>\<open>Laikad.init_gnss_localizer\<close>.\<close>

definition init_gnss_localizer :: "env \<Rightarrow> laikad \<Rightarrow> npfloat list \<Rightarrow> error + laikad" where
  "init_gnss_localizer env s est_pos =
     (let x0 = x_initial env; p0 = diagonal (P_initial env)
      in case np_set_slice (ECEF_POS env) x0 est_pos of
           Inl e \<Rightarrow> Inl e
         | Inr x1 \<Rightarrow>
             (let p1 = np_fill_slice (ECEF_POS env) p0 (Finite (1000 ^ 2))
              in Inr (s\<lparr>gnss_kf := kf_init_state env (gnss_kf s) x1 p1,
                        trace := trace s @ [InitState x1 p1]\<rparr>)))"

text \<open>
  \<open>kf_add_observations\<close>. \<open>ekf_data_of\<close> is the dict \<open>ekf_data\<close> after the two
  assignments of the rate kinds, in insertion order; the last loop submits every entry
  with \<open>len(data) > 0\<close>. The filter object is the field \<open>gnss_kf\<close> of the estimator.
\<close>

definition ekf_data_of :: "env \<Rightarrow> gnss_measurement list \<Rightarrow> (observation_kind \<times> real list list) list" where
  "ekf_data_of env measurements =
     (let d1 = foldl (\<lambda>d m.
                  if constellation_id m = GPS then dd_append d PSEUDORANGE_GPS (as_array env m)
                  else if constellation_id m = GLONASS
                       then dd_append d PSEUDORANGE_GLONASS (as_array env m)
                  else d) [] measurements;
          (gps, d2) = dd_get d1 PSEUDORANGE_GPS;
          d3 = dd_set d2 PSEUDORANGE_RATE_GPS gps;
          (glonass, d4) = dd_get d3 PSEUDORANGE_GLONASS
      in dd_set d4 PSEUDORANGE_RATE_GLONASS glonass)"

definition predict_and_observe :: "env \<Rightarrow> real \<Rightarrow> laikad \<Rightarrow> observation_kind \<times> real list list \<Rightarrow> laikad" where
  "predict_and_observe env t s entry =
     s\<lparr>gnss_kf := kf_predict_and_observe env (gnss_kf s) t (fst entry) (snd entry),
       trace := trace s @ [PredictAndObserve t (fst entry) (snd entry)]\<rparr>"

definition kf_add_observations :: "env \<Rightarrow> laikad \<Rightarrow> real \<Rightarrow> gnss_measurement list \<Rightarrow> laikad" where
  "kf_add_observations env s t measurements =
     foldl (\<lambda>s' entry. if length (snd entry) > 0 then predict_and_observe env t s' entry else s')
       s (ekf_data_of env measurements)"

text \<open>
  \<open>Laikad.update_localizer\<close>. The first block raises, returns (\<open>None\<close> below), or falls
  through with the estimator it leaves.
\<close>

definition update_localizer :: "env \<Rightarrow> laikad \<Rightarrow> npfloat list \<Rightarrow> real \<Rightarrow> gnss_measurement list \<Rightarrow> error + laikad" where
  "update_localizer env s est_pos t measurements =
     (let valid = kf_valid env s t
      in case (if \<not> py_all valid then
                 (if length est_pos > 0 then
                    (case init_gnss_localizer env s est_pos of
                       Inl e \<Rightarrow> Inl e
                     | Inr s1 \<Rightarrow> Inr (Some s1))
                  else Inr None)
               else Inr (Some s)) of
           Inl e \<Rightarrow> Inl e
         | Inr None \<Rightarrow> Inr s
         | Inr (Some s1) \<Rightarrow>
             (if length measurements > 0 then Inr (kf_add_observations env s1 t measurements)
              else Inr (s1\<lparr>gnss_kf := kf_predict env (gnss_kf s1) t,
                           trace := trace s1 @ [Predict t]\<rparr>)))"

subsection \<open>Orbit fetch scheduler\<close>

text \<open>
  \<open>get_orbit_data\<close>: an exception of the download that is a \<open>RuntimeError\<close>, a
  \<open>ValueError\<close> or an \<open>IOError\<close> (of the class or of a class derived from it) is
  caught and the function returns \<open>None\<close>; any other exception propagates.
\<close>

definition get_orbit_data ::
  "env \<Rightarrow> gps_time \<Rightarrow> string list \<Rightarrow> bool \<Rightarrow> ephemeris_type list
     \<Rightarrow> error + (ephems \<times> time_range_holder) option" where
  "get_orbit_data env t vc au types =
     (case astro_get_orbit_data env t vc au types of
        Inr r \<Rightarrow> Inr (Some r)
      | Inl e \<Rightarrow>
          (if isinstance e RuntimeError \<or> isinstance e ValueError \<or> isinstance e IOError
           then Inr None else Inl e))"

text \<open>The tail of \<open>fetch_orbits\<close>: \<open>if ret is not None: ...\<close>.\<close>

definition store_orbits :: "laikad \<Rightarrow> gps_time \<Rightarrow> (ephems \<times> time_range_holder) option \<Rightarrow> laikad" where
  "store_orbits s t ret =
     (case ret of
        None \<Rightarrow> s
      | Some (orb, fetched) \<Rightarrow>
          cache_ephemeris
            (s\<lparr>astro_dog := (astro_dog s)\<lparr>orbits := orb, orbit_fetched_times := fetched\<rparr>\<rparr>) t)"

text \<open>\<open>Laikad.fetch_orbits\<close>.\<close>

definition fetch_orbits :: "env \<Rightarrow> laikad \<Rightarrow> gps_time \<Rightarrow> bool \<Rightarrow> error + laikad" where
  "fetch_orbits env s t block =
     (if \<not> contains (orbit_fetched_times (astro_dog s)) t \<and>
         (case last_fetch_orbits_t s of None \<Rightarrow> True | Some l \<Rightarrow> gps_sub t l > SECS_IN_MIN)
      then
        (if block then
           (case get_orbit_data env t (valid_const (astro_dog s)) (auto_update (astro_dog s))
                   (valid_ephem_types (astro_dog s)) of
              Inl e \<Rightarrow> Inl e
            | Inr ret \<Rightarrow> Inr (store_orbits s t ret))
         else (case orbit_fetch_future s of
              None \<Rightarrow>
                Inr (s\<lparr>orbit_fetch_executor := Some (),
                       orbit_fetch_future := Some Running,
                       trace := trace s @ [Submit t]\<rparr>)
            | Some Running \<Rightarrow> Inr s
            | Some (Done res) \<Rightarrow>
                (case res of
                   Inl e \<Rightarrow> Inl e
                 | Inr ret \<Rightarrow>
                     Inr (store_orbits
                            (s\<lparr>last_fetch_orbits_t := Some t,
                               orbit_fetch_executor := None,
                               orbit_fetch_future := None\<rparr>) t ret))))
      else Inr s)"

subsection \<open>Message assembly and the per-message handler\<close>

text \<open>\<open>create_measurement_msg\<close>; the two \<open>assert\<close>s raise \<open>AssertionError\<close>.\<close>

definition create_measurement_msg :: "gnss_measurement \<Rightarrow> error + corrected_measurement" where
  "create_measurement_msg meas =
     (case dict_get (observables_final meas) ''C1C'' of Inl e \<Rightarrow> Inl e | Inr pr \<Rightarrow>
     (case dict_get (observables_std meas) ''C1C'' of Inl e \<Rightarrow> Inl e | Inr pr_std \<Rightarrow>
     (case dict_get (observables_final meas) ''D1C'' of Inl e \<Rightarrow> Inl e | Inr prr \<Rightarrow>
     (case dict_get (observables_std meas) ''D1C'' of Inl e \<Rightarrow> Inl e | Inr prr_std \<Rightarrow>
     (case sat_ephemeris meas of
        None \<Rightarrow> Inl AssertionError
      | Some ephem \<Rightarrow>
          (case (if eph_type ephem = NAV then Inr (Nav, - 1, - 1)
                 else (case file_epoch ephem of
                         None \<Rightarrow> Inl AssertionError
                       | Some fe \<Rightarrow>
                           (let file_src = file_source ephem
                            in if file_src = ''igu'' then Inr (NasaUltraRapid, week fe, py_int (tow fe))
                               else if file_src = ''Sta''
                                    then Inr (GlonassIacUltraRapid, week fe, py_int (tow fe))
                               else Inl (Exception (''Didn't expect file source '' @ file_src))))) of
             Inl e \<Rightarrow> Inl e
           | Inr (source_type, wk, time_of_week) \<Rightarrow>
               Inr \<lparr>constellationId = constellation_id meas,
                    svId = sv_id meas,
                    glonassFrequency =
                      (if constellation_id meas = GLONASS then glonass_freq meas else 0),
                    pseudorange = pr,
                    pseudorangeStd = pr_std,
                    pseudorangeRate = prr,
                    pseudorangeRateStd = prr_std,
                    satPos = sat_pos_final meas,
                    satVel = sat_vel meas,
                    ephemerisSource_type = source_type,
                    ephemerisSource_gpsWeek = wk,
                    ephemerisSource_gpsTimeOfWeek = time_of_week\<rparr>))))))"

text \<open>
  The first step of \<open>process_ublox_msg\<close> on a measurement report: the orbit fetch for
  one minute after the report's time, when the report has a week and fetching is enabled.
\<close>

definition fetch_step :: "env \<Rightarrow> laikad \<Rightarrow> report \<Rightarrow> bool \<Rightarrow> error + laikad" where
  "fetch_step env s r block =
     (if gpsWeek r > 0 \<and> auto_fetch_orbits s
      then fetch_orbits env s (gps_add \<lparr>week = gpsWeek r, tow = rcvTow r\<rparr> SECS_IN_MIN) block
      else Inr s)"

text \<open>
  \<open>Laikad.process_ublox_msg\<close>: the message it returns (\<open>None\<close> when it returns nothing)
  with the updated estimator, or the exception that leaves it.
\<close>

definition process_ublox_msg ::
  "env \<Rightarrow> laikad \<Rightarrow> ublox_msg \<Rightarrow> int \<Rightarrow> bool \<Rightarrow> error + (gnss_measurements_msg option \<times> laikad)" where
  "process_ublox_msg env s ublox_msg ublox_mono_time block =
     (case ublox_msg of
        MeasurementReport report \<Rightarrow>
          (let t = real_of_int ublox_mono_time * (1 / 10 ^ 9)
           in case fetch_step env s report block of
                Inl e \<Rightarrow> Inl e
              | Inr s1 \<Rightarrow>
                  (let new_meas = read_raw_ublox env report;
                       processed_measurements = process_measurements env new_meas (astro_dog s1);
                       (est_pos, s2) = get_est_pos env s1 t processed_measurements;
                       corrected_measurements =
                         (if length est_pos > 0
                          then correct_measurements env processed_measurements est_pos (astro_dog s2)
                          else [])
                   in case update_localizer env s2 est_pos t corrected_measurements of
                        Inl e \<Rightarrow> Inl e
                      | Inr s3 \<Rightarrow>
                          (let valid = py_all (kf_valid env s3 t);
                               ecef_pos = np_slice (ECEF_POS env) (kf_x (gnss_kf s3));
                               ecef_vel = np_slice (ECEF_VELOCITY env) (kf_x (gnss_kf s3));
                               pos_std = map np_sqrt_abs
                                           (diagonal (np_slice (ECEF_POS env) (kf_P (gnss_kf s3))));
                               vel_std = map np_sqrt_abs
                                           (diagonal (np_slice (ECEF_VELOCITY env) (kf_P (gnss_kf s3))))
                           in case map_err create_measurement_msg corrected_measurements of
                                Inl e \<Rightarrow> Inl e
                              | Inr meas_msgs \<Rightarrow>
                                  Inr (Some \<lparr>msg_gpsWeek = gpsWeek report,
                                             msg_gpsTimeOfWeek = rcvTow report,
                                             positionECEF =
                                               \<lparr>m_value = ecef_pos, m_std = pos_std, m_valid = valid\<rparr>,
                                             velocityECEF =
                                               \<lparr>m_value = ecef_vel, m_std = vel_std, m_valid = valid\<rparr>,
                                             positionFixECEF =
                                               \<lparr>m_value = last_pos_fix s3,
                                                m_std = last_pos_residual s3,
                                                m_valid = (last_pos_fix_t s3 = Some t)\<rparr>,
                                             ubloxMonoTime = ublox_mono_time,
                                             correctedMeasurements = meas_msgs\<rparr>, s3))))
      | EphemerisMsg payload \<Rightarrow>
          (let ephem = convert_ublox_ephem env payload;
               s1 = s\<lparr>astro_dog := add_navs env (astro_dog s) [(prn ephem, [ephem])]\<rparr>
           in Inr (None, cache_ephemeris s1 (epoch ephem)))
      | OtherMsg kind \<Rightarrow> Inr (None, s))"



section \<open>Observations on the trace\<close>

text \<open>
  The cache writes, the submitted background fetches, the solver calls and the filter
  calls of a trace, each in order.
\<close>

fun cache_writes_of :: "effect list \<Rightarrow> cache_snapshot list" where
  "cache_writes_of [] = []"
| "cache_writes_of (PutNonblocking c # es) = c # cache_writes_of es"
| "cache_writes_of (e # es) = cache_writes_of es"

fun submitted_of :: "effect list \<Rightarrow> gps_time list" where
  "submitted_of [] = []"
| "submitted_of (Submit t # es) = t # submitted_of es"
| "submitted_of (e # es) = submitted_of es"

fun solver_calls_of :: "effect list \<Rightarrow> (gnss_measurement list \<times> nat) list" where
  "solver_calls_of [] = []"
| "solver_calls_of (CalcPosFix ms n # es) = (ms, n) # solver_calls_of es"
| "solver_calls_of (e # es) = solver_calls_of es"

fun is_filter_call :: "effect \<Rightarrow> bool" where
  "is_filter_call (InitState x0 p0) = True"
| "is_filter_call (Predict t) = True"
| "is_filter_call (PredictAndObserve t k d) = True"
| "is_filter_call e = False"

definition cache_writes :: "laikad \<Rightarrow> cache_snapshot list" where
  "cache_writes s = cache_writes_of (trace s)"

definition submitted :: "laikad \<Rightarrow> gps_time list" where
  "submitted s = submitted_of (trace s)"

definition solver_calls :: "laikad \<Rightarrow> (gnss_measurement list \<times> nat) list" where
  "solver_calls s = solver_calls_of (trace s)"

definition filter_calls :: "laikad \<Rightarrow> effect list" where
  "filter_calls s = filter is_filter_call (trace s)"

text \<open>The measurements of one constellation, as the router stores them.\<close>

definition bucket :: "env \<Rightarrow> constellation_id \<Rightarrow> gnss_measurement list \<Rightarrow> real list list" where
  "bucket env c ms = map (as_array env) (filter (\<lambda>m. constellation_id m = c) ms)"

text \<open>The batches \<open>kf_add_observations\<close> submits: the entries of \<open>ekf_data\<close> that are not empty.\<close>

definition batches :: "env \<Rightarrow> gnss_measurement list \<Rightarrow> (observation_kind \<times> real list list) list" where
  "batches env ms = filter (\<lambda>entry. length (snd entry) > 0) (ekf_data_of env ms)"




section \<open>A test scenario\<close>

text \<open>
  A small concrete environment: a filter with seven states (position, velocity, clock
  bias), a solver that returns a fixed solution when it is given enough measurements,
  a measurement pipeline that passes the measurements on, a download that fails with
  \<open>IOError\<close>, and a parser that accepts only the empty JSON object.
\<close>

definition example_env :: env where
  "example_env =
     \<lparr>calc_pos_fix_gauss_newton =
        (\<lambda>ms n. if n \<le> length ms then ([Finite 10, Finite 20, Finite 30, Finite 5], [Finite 0])
                 else ([], [])),
      read_raw_ublox = raw_observations,
      process_measurements = (\<lambda>ms dog. ms),
      correct_measurements = (\<lambda>ms pos dog. ms),
      convert_ublox_ephem =
        (\<lambda>payload. \<lparr>prn = ''G01'', eph_type = NAV, epoch = \<lparr>week = 2200, tow = 0\<rparr>,
                      file_epoch = None, file_source = []\<rparr>),
      add_orbits = (\<lambda>dog e. dog\<lparr>orbits := orbits dog @ e\<rparr>),
      add_navs = (\<lambda>dog e. dog\<lparr>nav := nav dog @ e\<rparr>),
      astro_get_orbit_data = (\<lambda>t vc au types. Inl IOError),
      as_array = sat_pos_final,
      kf_new = \<lparr>kf_filter_time = None, kf_x = replicate 7 (Finite 0), kf_P = []\<rparr>,
      kf_init_state = (\<lambda>k x0 p0. \<lparr>kf_filter_time = None, kf_x = x0, kf_P = map (\<lambda>v. [v]) p0\<rparr>),
      kf_predict = (\<lambda>k t. k\<lparr>kf_filter_time := Some t\<rparr>),
      kf_predict_and_observe = (\<lambda>k t kind d. k\<lparr>kf_filter_time := Some t\<rparr>),
      x_initial = replicate 7 (Finite 0),
      P_initial = map (\<lambda>i. map (\<lambda>j. if i = j then Finite 100 else Finite 0) [0..<7]) [0..<7],
      ECEF_POS = (0, 3),
      ECEF_VELOCITY = (3, 6),
      json_loads = (\<lambda>b. if b = ''{}'' then Inr (Dict []) else Inl JSONDecodeError)\<rparr>"

text \<open>The estimator as \<open>main\<close> constructs it, with the network and cache writes enabled.\<close>

definition example_laikad :: laikad where
  "example_laikad =
     cold_start example_env [''GPS'', ''GLONASS''] True False [ULTRA_RAPID_ORBIT, NAV] True"


definition example_meas :: "constellation_id \<Rightarrow> ephemeris option \<Rightarrow> gnss_measurement" where
  "example_meas c e =
     \<lparr>constellation_id = c, sv_id = 1, glonass_freq = 0,
      observables_final = [(''C1C'', 20000000), (''D1C'', 100)],
      observables_std = [(''C1C'', 5), (''D1C'', 1)],
      sat_pos_final = [1, 2, 3], sat_vel = [0, 0, 0], sat_ephemeris = e\<rparr>"

definition example_time :: gps_time where
  "example_time = \<lparr>week = 2200, tow = 100000\<rparr>"

definition example_report :: "gnss_measurement list \<Rightarrow> report" where
  "example_report ms = \<lparr>gpsWeek = 0, rcvTow = 100000, raw_observations = ms\<rparr>"



section \<open>Helper lemmas\<close>

lemma gps_sub_add: "gps_sub (gps_add a d) a = d"
  by (simp add: gps_sub_def gps_add_def Let_def algebra_simps)

lemma cache_writes_of_append: "cache_writes_of (xs @ ys) = cache_writes_of xs @ cache_writes_of ys"
  by (induction xs rule: cache_writes_of.induct) simp_all

lemma submitted_of_append: "submitted_of (xs @ ys) = submitted_of xs @ submitted_of ys"
  by (induction xs rule: submitted_of.induct) simp_all

lemma solver_calls_of_append: "solver_calls_of (xs @ ys) = solver_calls_of xs @ solver_calls_of ys"
  by (induction xs rule: solver_calls_of.induct) simp_all

lemma submitted_cache_ephemeris:
  "submitted_of (trace (cache_ephemeris s t)) = submitted_of (trace s)"
  by (simp add: cache_ephemeris_def submitted_of_append)

lemma submitted_store_orbits:
  "submitted_of (trace (store_orbits s t ret)) = submitted_of (trace s)"
  by (cases ret) (auto simp add: store_orbits_def submitted_cache_ephemeris)

lemma fetch_orbits_throttled:
  "last_fetch_orbits_t s = Some l \<Longrightarrow> gps_sub t l \<le> 60 \<Longrightarrow> fetch_orbits env s t block = Inr s"
  by (simp add: fetch_orbits_def SECS_IN_MIN_def)

lemma route_loop_shape:
  fixes env ms
  defines "d1 \<equiv> foldl (\<lambda>d m.
                  if constellation_id m = GPS then dd_append d PSEUDORANGE_GPS (as_array env m)
                  else if constellation_id m = GLONASS
                       then dd_append d PSEUDORANGE_GLONASS (as_array env m)
                  else d) [] ms"
    and "g \<equiv> bucket env GPS ms" and "l \<equiv> bucket env GLONASS ms"
  shows "(g = [] \<and> l = [] \<and> d1 = [])
       \<or> (g \<noteq> [] \<and> l = [] \<and> d1 = [(PSEUDORANGE_GPS, g)])
       \<or> (g = [] \<and> l \<noteq> [] \<and> d1 = [(PSEUDORANGE_GLONASS, l)])
       \<or> (g \<noteq> [] \<and> l \<noteq> [] \<and> d1 = [(PSEUDORANGE_GPS, g), (PSEUDORANGE_GLONASS, l)])
       \<or> (g \<noteq> [] \<and> l \<noteq> [] \<and> d1 = [(PSEUDORANGE_GLONASS, l), (PSEUDORANGE_GPS, g)])"
  unfolding d1_def g_def l_def
proof (induction ms rule: rev_induct)
  case Nil
  then show ?case by (simp add: bucket_def)
next
  case (snoc m ms)
  then show ?case
    by (cases "constellation_id m") (auto simp add: bucket_def)
qed

lemma batches_shape:
  fixes env ms
  defines "g \<equiv> bucket env GPS ms" and "l \<equiv> bucket env GLONASS ms"
  shows "(g = [] \<and> l = [] \<and> batches env ms = [])
       \<or> (g \<noteq> [] \<and> l = [] \<and> batches env ms = [(PSEUDORANGE_GPS, g), (PSEUDORANGE_RATE_GPS, g)])
       \<or> (g = [] \<and> l \<noteq> [] \<and>
            batches env ms = [(PSEUDORANGE_GLONASS, l), (PSEUDORANGE_RATE_GLONASS, l)])
       \<or> (g \<noteq> [] \<and> l \<noteq> [] \<and>
            batches env ms = [(PSEUDORANGE_GPS, g), (PSEUDORANGE_GLONASS, l),
                              (PSEUDORANGE_RATE_GPS, g), (PSEUDORANGE_RATE_GLONASS, l)])
       \<or> (g \<noteq> [] \<and> l \<noteq> [] \<and>
            batches env ms = [(PSEUDORANGE_GLONASS, l), (PSEUDORANGE_GPS, g),
                              (PSEUDORANGE_RATE_GPS, g), (PSEUDORANGE_RATE_GLONASS, l)])"
  using route_loop_shape [of env ms] unfolding g_def l_def
  by (elim disjE conjE) (simp_all add: batches_def ekf_data_of_def dd_get_def)

lemma filter_calls_observe_loop:
  "filter_calls (foldl (\<lambda>s' entry. if length (snd entry) > 0
                                     then predict_and_observe env t s' entry else s') s d) =
     filter_calls s @ map (\<lambda>(k, b). PredictAndObserve t k b) (filter (\<lambda>entry. length (snd entry) > 0) d)"
  by (induction d arbitrary: s)
     (auto simp add: filter_calls_def predict_and_observe_def)

lemma gnss_kf_observe_loop:
  "gnss_kf (foldl (\<lambda>s' entry. if length (snd entry) > 0
                                then predict_and_observe env t s' entry else s') s d) =
     foldl (\<lambda>k (kind, b). kf_predict_and_observe env k t kind b) (gnss_kf s)
       (filter (\<lambda>entry. length (snd entry) > 0) d)"
  by (induction d arbitrary: s)
     (auto simp add: predict_and_observe_def)

lemma filter_calls_cache_ephemeris:
  "gnss_kf (cache_ephemeris s t) = gnss_kf s
   \<and> filter is_filter_call (trace (cache_ephemeris s t)) = filter is_filter_call (trace s)"
  by (simp add: cache_ephemeris_def)

lemma filter_calls_store_orbits:
  "gnss_kf (store_orbits s t ret) = gnss_kf s
   \<and> filter is_filter_call (trace (store_orbits s t ret)) = filter is_filter_call (trace s)"
  by (cases ret) (auto simp add: store_orbits_def filter_calls_cache_ephemeris)

lemma fetch_orbits_keeps_filter:
  "fetch_orbits env s t block = Inr s' \<Longrightarrow>
     gnss_kf s' = gnss_kf s \<and> filter is_filter_call (trace s') = filter is_filter_call (trace s)"
  by (auto simp add: fetch_orbits_def filter_calls_store_orbits
      split: if_splits sum.splits option.splits future.splits)

lemma fetch_step_keeps_filter:
  "fetch_step env s r block = Inr s' \<Longrightarrow>
     gnss_kf s' = gnss_kf s \<and> filter is_filter_call (trace s') = filter is_filter_call (trace s)"
  by (auto simp add: fetch_step_def dest: fetch_orbits_keeps_filter split: if_splits)

lemma get_est_pos_keeps_filter:
  "gnss_kf (snd (get_est_pos env s t pm)) = gnss_kf s
   \<and> filter is_filter_call (trace (snd (get_est_pos env s t pm))) = filter is_filter_call (trace s)"
  by (auto simp add: get_est_pos_def Let_def split: prod.splits)

lemma get_est_pos_returns_cached:
  "fst (get_est_pos env s t pm) = last_pos_fix (snd (get_est_pos env s t pm))"
  by (auto simp add: get_est_pos_def Let_def split: prod.splits)

lemma kf_valid_cong: "gnss_kf a = gnss_kf b \<Longrightarrow> kf_valid env a t = kf_valid env b t"
  by (simp add: kf_valid_def)

lemma set_slice_nth:
  assumes "lo \<le> hi" "hi \<le> length xs" "length vs = hi - lo" "i < length xs"
  shows "(take lo xs @ vs @ drop hi xs) ! i = (if lo \<le> i \<and> i < hi then vs ! (i - lo) else xs ! i)"
  using assms by (auto simp add: nth_append min_def)









section \<open>Orbit fetch scheduler\<close>

text \<open>
  Claim C3. A request made without blocking submits a background fetch only if the time
  is not covered by the fetched-time records and the last fetch time is unset or more
  than 60 seconds before the request; then no task is outstanding, and the request's time
  is the one submitted. With no task outstanding the condition is also sufficient. With
  the last fetch at \<open>T\<close>, a request for \<open>T + 30\<close> changes nothing, a request for
  \<open>T + 61\<close> (not covered, no task outstanding) submits a fetch, and a request while the
  task is running changes nothing.
\<close>

theorem fetch_orbits_starts_task:
  "(fetch_orbits env s t False = Inr s' \<and> submitted s' \<noteq> submitted s \<longrightarrow>
      \<not> contains (orbit_fetched_times (astro_dog s)) t
      \<and> (last_fetch_orbits_t s = None \<or> (\<exists>l. last_fetch_orbits_t s = Some l \<and> gps_sub t l > 60))
      \<and> orbit_fetch_future s = None
      \<and> submitted s' = submitted s @ [t] \<and> orbit_fetch_future s' = Some Running)
   \<and> (\<not> contains (orbit_fetched_times (astro_dog s)) t
      \<and> (last_fetch_orbits_t s = None \<or> (\<exists>l. last_fetch_orbits_t s = Some l \<and> gps_sub t l > 60))
      \<and> orbit_fetch_future s = None \<longrightarrow>
      (\<exists>s1. fetch_orbits env s t False = Inr s1 \<and> submitted s1 = submitted s @ [t]
         \<and> orbit_fetch_future s1 = Some Running))
   \<and> (last_fetch_orbits_t s = Some l0 \<longrightarrow> fetch_orbits env s (gps_add l0 30) False = Inr s)
   \<and> (last_fetch_orbits_t s = Some l0 \<and> orbit_fetch_future s = None
      \<and> \<not> contains (orbit_fetched_times (astro_dog s)) (gps_add l0 61) \<longrightarrow>
      (\<exists>s1. fetch_orbits env s (gps_add l0 61) False = Inr s1
         \<and> submitted s1 = submitted s @ [gps_add l0 61] \<and> orbit_fetch_future s1 = Some Running))
   \<and> (orbit_fetch_future s = Some Running \<longrightarrow> fetch_orbits env s t False = Inr s)"
proof -
  have only_if: "fetch_orbits env s t False = Inr s' \<and> submitted s' \<noteq> submitted s \<longrightarrow>
      \<not> contains (orbit_fetched_times (astro_dog s)) t
      \<and> (last_fetch_orbits_t s = None \<or> (\<exists>l. last_fetch_orbits_t s = Some l \<and> gps_sub t l > 60))
      \<and> orbit_fetch_future s = None
      \<and> submitted s' = submitted s @ [t] \<and> orbit_fetch_future s' = Some Running"
    by (auto simp add: fetch_orbits_def SECS_IN_MIN_def submitted_store_orbits
          submitted_def submitted_of_append
        split: if_splits option.splits future.splits sum.splits)
  have idle: "\<And>u. \<not> contains (orbit_fetched_times (astro_dog s)) u
      \<and> (last_fetch_orbits_t s = None \<or> (\<exists>l. last_fetch_orbits_t s = Some l \<and> gps_sub u l > 60))
      \<and> orbit_fetch_future s = None \<longrightarrow>
      (\<exists>s1. fetch_orbits env s u False = Inr s1 \<and> submitted s1 = submitted s @ [u]
         \<and> orbit_fetch_future s1 = Some Running)"
    by (auto simp add: fetch_orbits_def SECS_IN_MIN_def submitted_def submitted_of_append)
  have near: "last_fetch_orbits_t s = Some l0 \<longrightarrow> fetch_orbits env s (gps_add l0 30) False = Inr s"
    by (simp add: fetch_orbits_throttled gps_sub_add)
  have far: "last_fetch_orbits_t s = Some l0 \<and> orbit_fetch_future s = None
      \<and> \<not> contains (orbit_fetched_times (astro_dog s)) (gps_add l0 61) \<longrightarrow>
      (\<exists>s1. fetch_orbits env s (gps_add l0 61) False = Inr s1
         \<and> submitted s1 = submitted s @ [gps_add l0 61] \<and> orbit_fetch_future s1 = Some Running)"
    using idle [of "gps_add l0 61"] by (simp add: gps_sub_add)
  have pending: "orbit_fetch_future s = Some Running \<longrightarrow> fetch_orbits env s t False = Inr s"
    by (simp add: fetch_orbits_def)
  from only_if idle [of t] near far pending show ?thesis by blast
qed

theorem fetch_orbits_starts_task_witness:
  "fetch_orbits example_env (example_laikad\<lparr>last_fetch_orbits_t := Some example_time\<rparr>)
      (gps_add example_time 30) False
     = Inr (example_laikad\<lparr>last_fetch_orbits_t := Some example_time\<rparr>)
   \<and> (\<exists>s1. fetch_orbits example_env (example_laikad\<lparr>last_fetch_orbits_t := Some example_time\<rparr>)
               (gps_add example_time 61) False = Inr s1
          \<and> submitted s1 = [gps_add example_time 61] \<and> orbit_fetch_future s1 = Some Running)"
  using fetch_orbits_starts_task
    [of example_env "example_laikad\<lparr>last_fetch_orbits_t := Some example_time\<rparr>"
        "gps_add example_time 61" "example_laikad" example_time]
  by (simp add: example_laikad_def cold_start_def contains_def submitted_def)

text \<open>
  Claim C10. When a request made without blocking finds the background task done with no
  data (\<open>get_orbit_data\<close> returned \<open>None\<close>), the orbit store with its fetched-time
  records and the persisted cache stay as they are, the task is cleared, and
  \<open>last_fetch_orbits_t\<close> is the time of the request: every request up to 60 seconds
  after it, blocking or not, does nothing.
\<close>

theorem failed_fetch_still_throttles:
  assumes finished: "orbit_fetch_future s = Some (Done (Inr None))"
    and uncovered: "\<not> contains (orbit_fetched_times (astro_dog s)) t"
    and due: "last_fetch_orbits_t s = None \<or> (\<exists>l. last_fetch_orbits_t s = Some l \<and> gps_sub t l > 60)"
  shows "\<exists>s'. fetch_orbits env s t False = Inr s'
      \<and> s' = s\<lparr>last_fetch_orbits_t := Some t, orbit_fetch_executor := None, orbit_fetch_future := None\<rparr>
      \<and> astro_dog s' = astro_dog s
      \<and> cache_writes s' = cache_writes s
      \<and> last_cached_t s' = last_cached_t s
      \<and> last_fetch_orbits_t s' = Some t
      \<and> (\<forall>t' block. gps_sub t' t \<le> 60 \<longrightarrow> fetch_orbits env s' t' block = Inr s')"
proof -
  let ?s' = "s\<lparr>last_fetch_orbits_t := Some t, orbit_fetch_executor := None, orbit_fetch_future := None\<rparr>"
  have run: "fetch_orbits env s t False = Inr ?s'"
    using finished uncovered due by (auto simp add: fetch_orbits_def SECS_IN_MIN_def store_orbits_def)
  have throttle: "\<forall>t' block. gps_sub t' t \<le> 60 \<longrightarrow> fetch_orbits env ?s' t' block = Inr ?s'"
    by (simp add: fetch_orbits_throttled)
  from run throttle show ?thesis by (simp add: cache_writes_def)
qed

theorem failed_fetch_still_throttles_witness:
  "fetch_orbits example_env (example_laikad\<lparr>orbit_fetch_future := Some (Done (Inr None))\<rparr>)
      example_time False
     = Inr (example_laikad\<lparr>last_fetch_orbits_t := Some example_time\<rparr>)
   \<and> fetch_orbits example_env (example_laikad\<lparr>last_fetch_orbits_t := Some example_time\<rparr>)
        (gps_add example_time 60) True
     = Inr (example_laikad\<lparr>last_fetch_orbits_t := Some example_time\<rparr>)"
proof -
  have fin: "orbit_fetch_future (example_laikad\<lparr>orbit_fetch_future := Some (Done (Inr None))\<rparr>)
               = Some (Done (Inr None))"
    by simp
  have unc: "\<not> contains (orbit_fetched_times (astro_dog
               (example_laikad\<lparr>orbit_fetch_future := Some (Done (Inr None))\<rparr>))) example_time"
    by (simp add: example_laikad_def cold_start_def contains_def)
  have due: "last_fetch_orbits_t (example_laikad\<lparr>orbit_fetch_future := Some (Done (Inr None))\<rparr>) = None
      \<or> (\<exists>l. last_fetch_orbits_t (example_laikad\<lparr>orbit_fetch_future := Some (Done (Inr None))\<rparr>) = Some l
            \<and> gps_sub example_time l > 60)"
    by (simp add: example_laikad_def cold_start_def)
  have same: "example_laikad\<lparr>orbit_fetch_future := Some (Done (Inr None)),
                 last_fetch_orbits_t := Some example_time, orbit_fetch_executor := None,
                 orbit_fetch_future := None\<rparr>
              = example_laikad\<lparr>last_fetch_orbits_t := Some example_time\<rparr>"
    by (simp add: example_laikad_def cold_start_def)
  from failed_fetch_still_throttles [OF fin unc due, of example_env]
  show ?thesis by (auto simp add: same gps_sub_add)
qed

section \<open>Ephemeris cache\<close>

text \<open>
  Claim C7. \<open>cache_ephemeris\<close> at time \<open>t\<close> writes a snapshot exactly when saving is
  enabled and \<open>last_cached_t\<close> is unset or more than 60 seconds before \<open>t\<close>; a write
  sets \<open>last_cached_t\<close> to \<open>t\<close>, and without a write it keeps its value. With saving
  enabled, a request 59 seconds after the last write changes nothing and one 61 seconds
  after it writes.
\<close>

theorem cache_ephemeris_throttle:
  "cache_writes (cache_ephemeris s t) =
     (if save_ephemeris s \<and>
         (last_cached_t s = None \<or> (\<exists>l. last_cached_t s = Some l \<and> gps_sub t l > 60))
      then cache_writes s @
             [\<lparr>snap_version = CACHE_VERSION, snap_last_fetch_orbits_t = last_fetch_orbits_t s,
               snap_orbits = orbits (astro_dog s), snap_nav = nav (astro_dog s)\<rparr>]
      else cache_writes s)
   \<and> last_cached_t (cache_ephemeris s t) =
     (if save_ephemeris s \<and>
         (last_cached_t s = None \<or> (\<exists>l. last_cached_t s = Some l \<and> gps_sub t l > 60))
      then Some t else last_cached_t s)
   \<and> (save_ephemeris s \<and> last_cached_t s = Some l0 \<longrightarrow>
        cache_ephemeris s (gps_add l0 59) = s
        \<and> cache_writes (cache_ephemeris s (gps_add l0 61)) \<noteq> cache_writes s
        \<and> last_cached_t (cache_ephemeris s (gps_add l0 61)) = Some (gps_add l0 61))"
  by (cases "last_cached_t s")
     (simp_all add: cache_ephemeris_def cache_writes_def cache_writes_of_append SECS_IN_MIN_def
        gps_sub_add)

theorem cache_ephemeris_throttle_witness:
  "cache_ephemeris (example_laikad\<lparr>last_cached_t := Some example_time\<rparr>) (gps_add example_time 59)
     = example_laikad\<lparr>last_cached_t := Some example_time\<rparr>
   \<and> cache_writes (cache_ephemeris (example_laikad\<lparr>last_cached_t := Some example_time\<rparr>)
        (gps_add example_time 61))
       \<noteq> cache_writes (example_laikad\<lparr>last_cached_t := Some example_time\<rparr>)
   \<and> last_cached_t (cache_ephemeris (example_laikad\<lparr>last_cached_t := Some example_time\<rparr>)
        (gps_add example_time 61)) = Some (gps_add example_time 61)"
  using cache_ephemeris_throttle
    [of "example_laikad\<lparr>last_cached_t := Some example_time\<rparr>" "gps_add example_time 61" example_time]
  by (simp add: example_laikad_def cold_start_def gps_sub_add)

section \<open>Position fix\<close>



text \<open>
  Claim C9. When \<open>get_est_pos\<close> calls the solver, it passes the processed measurements
  with \<open>min_measurements\<close> 5 if one of them is a GLONASS measurement and 4 otherwise,
  and what it returns comes from that call.
\<close>

theorem get_est_pos_min_measurements:
  "(last_pos_fix_t s = None \<or> (\<exists>l. last_pos_fix_t s = Some l \<and> \<bar>t - l\<bar> \<ge> 2)) \<longrightarrow>
     solver_calls (snd (get_est_pos env s t pm)) =
       solver_calls s @ [(pm, if (\<exists>p \<in> set pm. constellation_id p = GLONASS) then 5 else 4)]
     \<and> fst (get_est_pos env s t pm) =
         (let fix = fst (calc_pos_fix_gauss_newton env pm
                      (if (\<exists>p \<in> set pm. constellation_id p = GLONASS) then 5 else 4))
          in if fix \<noteq> [] then take 3 fix else last_pos_fix s)"
  by (cases "last_pos_fix_t s")
     (auto simp add: get_est_pos_def solver_calls_def solver_calls_of_append Let_def abs_minus_commute
        list_ex_iff split: prod.splits)

theorem get_est_pos_min_measurements_witness:
  "solver_calls (snd (get_est_pos example_env example_laikad 1
      [example_meas GPS None, example_meas GLONASS None]))
     = [([example_meas GPS None, example_meas GLONASS None], 5)]
   \<and> solver_calls (snd (get_est_pos example_env example_laikad 1 [example_meas GPS None]))
     = [([example_meas GPS None], 4)]"
  using get_est_pos_min_measurements
    [of example_laikad 1 example_env "[example_meas GPS None, example_meas GLONASS None]"]
    get_est_pos_min_measurements
    [of example_laikad 1 example_env "[example_meas GPS None]"]
  by (simp add: example_laikad_def cold_start_def solver_calls_def example_meas_def)

section \<open>Measurement router\<close>

text \<open>
  Claim C6. The filter calls of \<open>kf_add_observations\<close> are the batches, in order, and
  nothing else. No kind is submitted twice and no batch is empty; the pseudorange and the
  pseudorange-rate batch of GPS are both the GPS bucket and are submitted exactly when it
  is not empty, and the same holds for GLONASS; measurements of other constellations are
  in no bucket. With GPS measurements and no GLONASS measurement, exactly the two GPS
  batches are submitted.
\<close>

theorem router_batches:
  "filter_calls (kf_add_observations env s t ms) =
     filter_calls s @ map (\<lambda>(k, b). PredictAndObserve t k b) (batches env ms)
   \<and> gnss_kf (kf_add_observations env s t ms) =
       foldl (\<lambda>k (kind, b). kf_predict_and_observe env k t kind b) (gnss_kf s) (batches env ms)
   \<and> distinct (map fst (batches env ms))
   \<and> (\<forall>k b. (k, b) \<in> set (batches env ms) \<longleftrightarrow>
         b \<noteq> [] \<and>
         b = bucket env (if k = PSEUDORANGE_GPS \<or> k = PSEUDORANGE_RATE_GPS then GPS else GLONASS) ms)
   \<and> (bucket env GLONASS ms = [] \<and> bucket env GPS ms \<noteq> [] \<longrightarrow>
        batches env ms =
          [(PSEUDORANGE_GPS, bucket env GPS ms), (PSEUDORANGE_RATE_GPS, bucket env GPS ms)])"
proof -
  have calls: "filter_calls (kf_add_observations env s t ms) =
     filter_calls s @ map (\<lambda>(k, b). PredictAndObserve t k b) (batches env ms)"
    unfolding kf_add_observations_def batches_def by (rule filter_calls_observe_loop)
  have kf: "gnss_kf (kf_add_observations env s t ms) =
       foldl (\<lambda>k (kind, b). kf_predict_and_observe env k t kind b) (gnss_kf s) (batches env ms)"
    unfolding kf_add_observations_def batches_def by (rule gnss_kf_observe_loop)
  have once: "distinct (map fst (batches env ms))"
    using batches_shape [of env ms] by (elim disjE conjE) simp_all
  have members: "\<forall>k b. (k, b) \<in> set (batches env ms) \<longleftrightarrow>
         b \<noteq> [] \<and>
         b = bucket env (if k = PSEUDORANGE_GPS \<or> k = PSEUDORANGE_RATE_GPS then GPS else GLONASS) ms"
  proof (intro allI)
    fix k b
    show "(k, b) \<in> set (batches env ms) \<longleftrightarrow>
         b \<noteq> [] \<and>
         b = bucket env (if k = PSEUDORANGE_GPS \<or> k = PSEUDORANGE_RATE_GPS then GPS else GLONASS) ms"
      using batches_shape [of env ms] by (cases k; elim disjE conjE; auto)
  qed
  have gps_only: "bucket env GLONASS ms = [] \<and> bucket env GPS ms \<noteq> [] \<longrightarrow>
        batches env ms =
          [(PSEUDORANGE_GPS, bucket env GPS ms), (PSEUDORANGE_RATE_GPS, bucket env GPS ms)]"
    using batches_shape [of env ms] by (elim disjE conjE) simp_all
  from calls kf once members gps_only show ?thesis by blast
qed

theorem router_batches_witness:
  "batches example_env [example_meas GPS None, example_meas SBAS None]
     = [(PSEUDORANGE_GPS, [[1, 2, 3]]), (PSEUDORANGE_RATE_GPS, [[1, 2, 3]])]"
  using router_batches
    [of example_env example_laikad 0 "[example_meas GPS None, example_meas SBAS None]"]
  by (simp add: bucket_def example_meas_def example_env_def)



section \<open>Filter health\<close>

text \<open>
  Claim C4. When a validity check of \<open>kf_valid\<close> fails and a position fix is given
  (a vector of the length of the position slice), \<open>update_localizer\<close> resets the
  filter: it calls \<open>init_state\<close> with the initial state vector in which the position
  slice is the fix, and with the diagonal of the initial covariance in which the position
  slice is \<open>1000\<^sup>2\<close>; every other component of both vectors is the model's initial
  value. The measurements, or the time update when there are none, are then applied to
  the filter so reset.
\<close>

theorem reset_reinitialises_position:
  assumes invalid: "\<not> py_all (kf_valid env s t)"
    and available: "est_pos \<noteq> []"
    and slice: "ECEF_POS env = (lo, hi)" "lo \<le> hi" "length est_pos = hi - lo"
    and dims: "hi \<le> length (x_initial env)" "hi \<le> length (diagonal (P_initial env))"
  shows "update_localizer env s est_pos t ms =
           Inr (let x1 = take lo (x_initial env) @ est_pos @ drop hi (x_initial env);
                    p1 = take lo (diagonal (P_initial env)) @ replicate (hi - lo) (Finite (1000 ^ 2))
                           @ drop hi (diagonal (P_initial env));
                    s1 = s\<lparr>gnss_kf := kf_init_state env (gnss_kf s) x1 p1,
                           trace := trace s @ [InitState x1 p1]\<rparr>
                in if ms \<noteq> [] then kf_add_observations env s1 t ms
                   else s1\<lparr>gnss_kf := kf_predict env (gnss_kf s1) t,
                           trace := trace s1 @ [Predict t]\<rparr>)
       \<and> (\<forall>i < length (x_initial env).
            (take lo (x_initial env) @ est_pos @ drop hi (x_initial env)) ! i =
              (if lo \<le> i \<and> i < hi then est_pos ! (i - lo) else x_initial env ! i))
       \<and> (\<forall>i < length (diagonal (P_initial env)).
            (take lo (diagonal (P_initial env)) @ replicate (hi - lo) (Finite (1000 ^ 2))
               @ drop hi (diagonal (P_initial env))) ! i =
              (if lo \<le> i \<and> i < hi then Finite (1000 ^ 2) else diagonal (P_initial env) ! i))"
proof -
  have len: "0 < length est_pos"
    using available by simp
  have nonempty: "lo < hi"
    using len slice by linarith
  have run: "update_localizer env s est_pos t ms =
           Inr (let x1 = take lo (x_initial env) @ est_pos @ drop hi (x_initial env);
                    p1 = take lo (diagonal (P_initial env)) @ replicate (hi - lo) (Finite (1000 ^ 2))
                           @ drop hi (diagonal (P_initial env));
                    s1 = s\<lparr>gnss_kf := kf_init_state env (gnss_kf s) x1 p1,
                           trace := trace s @ [InitState x1 p1]\<rparr>
                in if ms \<noteq> [] then kf_add_observations env s1 t ms
                   else s1\<lparr>gnss_kf := kf_predict env (gnss_kf s1) t,
                           trace := trace s1 @ [Predict t]\<rparr>)"
    using invalid len nonempty slice dims
    by (simp add: update_localizer_def init_gnss_localizer_def np_set_slice_def
          np_fill_slice_def Let_def min_def)
  have state: "\<forall>i < length (x_initial env).
            (take lo (x_initial env) @ est_pos @ drop hi (x_initial env)) ! i =
              (if lo \<le> i \<and> i < hi then est_pos ! (i - lo) else x_initial env ! i)"
    using slice dims by (simp add: set_slice_nth)
  have cov: "\<forall>i < length (diagonal (P_initial env)).
            (take lo (diagonal (P_initial env)) @ replicate (hi - lo) (Finite (1000 ^ 2))
               @ drop hi (diagonal (P_initial env))) ! i =
              (if lo \<le> i \<and> i < hi then Finite (1000 ^ 2) else diagonal (P_initial env) ! i)"
    using slice dims by (auto simp add: set_slice_nth)
  from run state cov show ?thesis by blast
qed

theorem reset_reinitialises_position_witness:
  "update_localizer example_env example_laikad [Finite 10, Finite 20, Finite 30] 5 [] =
     Inr (example_laikad
       \<lparr>gnss_kf := \<lparr>kf_filter_time = Some 5,
                    kf_x = [Finite 10, Finite 20, Finite 30, Finite 0, Finite 0, Finite 0, Finite 0],
                    kf_P = map (\<lambda>v. [v])
                      [Finite 1000000, Finite 1000000, Finite 1000000,
                       Finite 100, Finite 100, Finite 100, Finite 100]\<rparr>,
        trace := [InitState
                    [Finite 10, Finite 20, Finite 30, Finite 0, Finite 0, Finite 0, Finite 0]
                    [Finite 1000000, Finite 1000000, Finite 1000000,
                     Finite 100, Finite 100, Finite 100, Finite 100],
                  Predict 5]\<rparr>)"
proof -
  have invalid: "\<not> py_all (kf_valid example_env example_laikad 5)"
    by (simp add: py_all_def kf_valid_def example_laikad_def cold_start_def example_env_def)
  have available: "[Finite 10, Finite 20, Finite 30] \<noteq> []"
    by simp
  have sl: "ECEF_POS example_env = (0, 3)" "(0::nat) \<le> 3"
    "length [Finite 10, Finite 20, Finite 30] = 3 - 0"
    by (simp_all add: example_env_def)
  have diag: "diagonal (P_initial example_env) = replicate 7 (Finite 100)"
    by (simp add: diagonal_def example_env_def upt_rec numeral_eq_Suc)
  have dims: "3 \<le> length (x_initial example_env)" "3 \<le> length (diagonal (P_initial example_env))"
    by (simp_all add: diag) (simp add: example_env_def)
  from reset_reinitialises_position [OF invalid available sl dims, of "[]"]
  show ?thesis
    by (simp add: diag) (simp add: example_env_def example_laikad_def cold_start_def numeral_eq_Suc Let_def)
qed

text \<open>
  Claim C1, as amended. On a measurement report whose orbit fetch does not raise, when a
  validity check fails and \<open>get_est_pos\<close> returns no position, the filter is left as
  it was and is not called; the handler still returns a message: its position and
  velocity are flagged invalid, its position fix is empty and it carries no corrected
  measurement.
\<close>

theorem skipped_epoch_keeps_filter:
  assumes fetch: "fetch_step env s r block = Inr s1"
    and invalid: "\<not> py_all (kf_valid env s (real_of_int mono_time * (1 / 10 ^ 9)))"
    and nofix: "fst (get_est_pos env s1 (real_of_int mono_time * (1 / 10 ^ 9))
                  (process_measurements env (read_raw_ublox env r) (astro_dog s1))) = []"
  shows "\<exists>m s'. process_ublox_msg env s (MeasurementReport r) mono_time block = Inr (Some m, s')
      \<and> gnss_kf s' = gnss_kf s
      \<and> filter_calls s' = filter_calls s
      \<and> \<not> m_valid (positionECEF m) \<and> \<not> m_valid (velocityECEF m)
      \<and> m_value (positionFixECEF m) = []
      \<and> correctedMeasurements m = []"
proof -
  let ?t = "real_of_int mono_time * (1 / 10 ^ 9)"
  let ?pm = "process_measurements env (read_raw_ublox env r) (astro_dog s1)"
  obtain est_pos s2 where est: "get_est_pos env s1 ?t ?pm = (est_pos, s2)"
    by (cases "get_est_pos env s1 ?t ?pm")
  have empty: "est_pos = []"
    using nofix est by simp
  have cached: "last_pos_fix s2 = []"
    using get_est_pos_returns_cached [of env s1 ?t ?pm] est empty by simp
  have kf2: "gnss_kf s2 = gnss_kf s"
    using get_est_pos_keeps_filter [of env s1 ?t ?pm] fetch_step_keeps_filter [OF fetch] est
    by simp
  have calls2: "filter_calls s2 = filter_calls s"
    using get_est_pos_keeps_filter [of env s1 ?t ?pm] fetch_step_keeps_filter [OF fetch] est
    by (simp add: filter_calls_def)
  have invalid2: "\<not> py_all (kf_valid env s2 ?t)"
    using invalid kf_valid_cong [OF kf2, of env ?t] by simp
  have skip: "update_localizer env s2 [] ?t [] = Inr s2"
    using invalid2 by (simp add: update_localizer_def)
  have "process_ublox_msg env s (MeasurementReport r) mono_time block =
          Inr (Some \<lparr>msg_gpsWeek = gpsWeek r,
                     msg_gpsTimeOfWeek = rcvTow r,
                     positionECEF =
                       \<lparr>m_value = np_slice (ECEF_POS env) (kf_x (gnss_kf s2)),
                        m_std = map np_sqrt_abs
                                  (diagonal (np_slice (ECEF_POS env) (kf_P (gnss_kf s2)))),
                        m_valid = False\<rparr>,
                     velocityECEF =
                       \<lparr>m_value = np_slice (ECEF_VELOCITY env) (kf_x (gnss_kf s2)),
                        m_std = map np_sqrt_abs
                                  (diagonal (np_slice (ECEF_VELOCITY env) (kf_P (gnss_kf s2)))),
                        m_valid = False\<rparr>,
                     positionFixECEF =
                       \<lparr>m_value = [], m_std = last_pos_residual s2,
                        m_valid = (last_pos_fix_t s2 = Some ?t)\<rparr>,
                     ubloxMonoTime = mono_time,
                     correctedMeasurements = []\<rparr>, s2)"
    using fetch est empty skip invalid2 cached
    by (simp add: process_ublox_msg_def Let_def)
  with kf2 calls2 show ?thesis by simp
qed

theorem skipped_epoch_keeps_filter_witness:
  "\<exists>m s'. process_ublox_msg example_env example_laikad (MeasurementReport (example_report []))
             5000000000 False = Inr (Some m, s')
      \<and> gnss_kf s' = gnss_kf example_laikad
      \<and> filter_calls s' = filter_calls example_laikad
      \<and> \<not> m_valid (positionECEF m) \<and> \<not> m_valid (velocityECEF m)
      \<and> m_value (positionFixECEF m) = []
      \<and> correctedMeasurements m = []"
proof -
  have fetch: "fetch_step example_env example_laikad (example_report []) False = Inr example_laikad"
    by (simp add: fetch_step_def example_report_def)
  have invalid: "\<not> py_all (kf_valid example_env example_laikad (real_of_int 5000000000 * (1 / 10 ^ 9)))"
    by (simp add: py_all_def kf_valid_def example_laikad_def cold_start_def example_env_def)
  have nofix: "fst (get_est_pos example_env example_laikad (real_of_int 5000000000 * (1 / 10 ^ 9))
                  (process_measurements example_env (read_raw_ublox example_env (example_report []))
                     (astro_dog example_laikad))) = []"
    by (simp add: get_est_pos_def example_laikad_def cold_start_def example_env_def
          example_report_def Let_def)
  from skipped_epoch_keeps_filter [OF fetch invalid nofix] show ?thesis .
qed

text \<open>
  Claim C1 as stated fails: on a cold-started estimator with a report that has no
  observation, the filter is invalid and there is no position fix, and the handler
  returns a message.
\<close>

theorem skipped_epoch_still_emits:
  "\<not> py_all (kf_valid example_env example_laikad 5)
   \<and> fst (get_est_pos example_env example_laikad 5 []) = []
   \<and> process_ublox_msg example_env example_laikad (MeasurementReport (example_report []))
        5000000000 False =
      Inr (Some \<lparr>msg_gpsWeek = 0, msg_gpsTimeOfWeek = 100000,
                 positionECEF = \<lparr>m_value = [Finite 0, Finite 0, Finite 0], m_std = [], m_valid = False\<rparr>,
                 velocityECEF = \<lparr>m_value = [Finite 0, Finite 0, Finite 0], m_std = [], m_valid = False\<rparr>,
                 positionFixECEF = \<lparr>m_value = [], m_std = [], m_valid = False\<rparr>,
                 ubloxMonoTime = 5000000000,
                 correctedMeasurements = []\<rparr>,
           example_laikad\<lparr>trace := [CalcPosFix [] 4]\<rparr>)"
proof -
  have invalid: "\<not> py_all (kf_valid example_env example_laikad 5)"
    by (simp add: py_all_def kf_valid_def example_laikad_def cold_start_def example_env_def)
  have est: "get_est_pos example_env example_laikad 5 [] =
               ([], example_laikad\<lparr>trace := [CalcPosFix [] 4]\<rparr>)"
    by (simp add: get_est_pos_def example_laikad_def cold_start_def example_env_def Let_def)
  have invalid2: "\<not> py_all (kf_valid example_env (example_laikad\<lparr>trace := [CalcPosFix [] 4]\<rparr>) 5)"
    by (simp add: py_all_def kf_valid_def example_laikad_def cold_start_def example_env_def)
  have skip: "update_localizer example_env (example_laikad\<lparr>trace := [CalcPosFix [] 4]\<rparr>) [] 5 [] =
                Inr (example_laikad\<lparr>trace := [CalcPosFix [] 4]\<rparr>)"
    using invalid2 by (simp add: update_localizer_def)
  have fetch: "fetch_step example_env example_laikad (example_report []) False = Inr example_laikad"
    by (simp add: fetch_step_def example_report_def)
  have pipeline: "process_measurements example_env
                    (read_raw_ublox example_env (example_report [])) (astro_dog example_laikad) = []"
    by (simp add: example_env_def example_report_def)
  have t: "real_of_int 5000000000 * (1 / 10 ^ 9) = 5"
    by simp
  have fields: "np_slice (ECEF_POS example_env) (kf_x (gnss_kf example_laikad)) = [Finite 0, Finite 0, Finite 0]"
    "np_slice (ECEF_VELOCITY example_env) (kf_x (gnss_kf example_laikad)) = [Finite 0, Finite 0, Finite 0]"
    "np_slice (ECEF_POS example_env) (kf_P (gnss_kf example_laikad)) = []"
    "np_slice (ECEF_VELOCITY example_env) (kf_P (gnss_kf example_laikad)) = []"
    "last_pos_fix example_laikad = []" "last_pos_residual example_laikad = []"
    "last_pos_fix_t example_laikad = None"
    by (simp_all add: np_slice_def example_laikad_def cold_start_def example_env_def numeral_eq_Suc)
  have run: "process_ublox_msg example_env example_laikad (MeasurementReport (example_report []))
        5000000000 False =
      Inr (Some \<lparr>msg_gpsWeek = 0, msg_gpsTimeOfWeek = 100000,
                 positionECEF = \<lparr>m_value = [Finite 0, Finite 0, Finite 0], m_std = [], m_valid = False\<rparr>,
                 velocityECEF = \<lparr>m_value = [Finite 0, Finite 0, Finite 0], m_std = [], m_valid = False\<rparr>,
                 positionFixECEF = \<lparr>m_value = [], m_std = [], m_valid = False\<rparr>,
                 ubloxMonoTime = 5000000000,
                 correctedMeasurements = []\<rparr>,
           example_laikad\<lparr>trace := [CalcPosFix [] 4]\<rparr>)"
    unfolding process_ublox_msg_def
    using invalid2
    by (simp add: fetch pipeline t est skip fields Let_def diagonal_def)
       (simp add: example_report_def)
  from invalid est run show ?thesis by simp
qed



section \<open>Message assembly\<close>



section \<open>Loading the cache at startup\<close>

text \<open>
  Claim C2 does not hold of the code. With saving enabled and persisted bytes that
  \<open>json.loads\<close> rejects, \<open>load_cache\<close> catches the \<open>JSONDecodeError\<close> and then
  raises \<open>TypeError\<close> while it builds its debug message, so the constructor raises
  and no estimator is built.
\<close>

theorem corrupt_cache_raises:
  assumes "cache \<noteq> []" and "json_loads env cache = Inl JSONDecodeError"
  shows "load_cache env (Some cache) (cold_start env vc auto_fetch auto_upd types True) = Inl TypeError
       \<and> laikad_init env (Some cache) vc auto_fetch auto_upd types True = Inl TypeError"
  using assms by (simp add: laikad_init_def load_cache_def cold_start_def)

theorem corrupt_cache_raises_witness:
  "laikad_init example_env (Some ''{'') [''GPS'', ''GLONASS''] True False [ULTRA_RAPID_ORBIT, NAV] True
     = Inl TypeError"
proof -
  have nonempty: "''{'' \<noteq> []"
    by simp
  have corrupt: "json_loads example_env ''{'' = Inl JSONDecodeError"
    by (simp add: example_env_def)
  from corrupt_cache_raises [OF nonempty corrupt] show ?thesis by simp
qed


end
